theory Spec2Isabelle
  imports Main
begin

section \<open>Data model\<close>

text \<open>
  The types of \<^verbatim>\<open>lib/types\<close>: the four upload sources, the processing status, the
  profile row, the daily-upload row and the static slot table. The field \<^verbatim>\<open>id\<close> of
  a row is written \<open>du_id\<close> (\<open>profile_id\<close> for a profile), since \<open>id\<close> is the
  identity function of HOL.
\<close>

datatype UploadSource = UberEats | DoorDash | Grubhub | Offline

datatype ProcessingStatus = Pending | InProcessing | Completed

datatype Stage = StAuth | StOnboarding | StUpload | StProcessing

datatype AuthMode = Login | Signup

record Profile =
  profile_id :: string
  profile_restaurant_name :: string
  profile_created_at :: string
  profile_updated_at :: string

record DailyUpload =
  du_id :: string
  user_id :: string
  restaurant_name :: string
  upload_date :: string
  ubereats_ready :: bool
  doordash_ready :: bool
  grubhub_ready :: bool
  offline_ready :: bool
  processing_status :: ProcessingStatus
  created_at :: string
  updated_at :: string

datatype ReadyKey = K_ubereats_ready | K_doordash_ready | K_grubhub_ready | K_offline_ready

record UploadSlot =
  slot_source :: UploadSource
  slot_label :: string
  slot_key :: ReadyKey
  slot_color :: string

definition UPLOAD_SLOTS :: "UploadSlot list" where
  "UPLOAD_SLOTS =
    [ \<lparr>slot_source = UberEats, slot_label = ''Uber Eats'', slot_key = K_ubereats_ready,
        slot_color = ''from-green-500 to-green-600''\<rparr>,
      \<lparr>slot_source = DoorDash, slot_label = ''DoorDash'', slot_key = K_doordash_ready,
        slot_color = ''from-red-500 to-red-600''\<rparr>,
      \<lparr>slot_source = Grubhub, slot_label = ''Grubhub'', slot_key = K_grubhub_ready,
        slot_color = ''from-orange-400 to-orange-500''\<rparr>,
      \<lparr>slot_source = Offline, slot_label = ''Offline Sales'', slot_key = K_offline_ready,
        slot_color = ''from-slate-600 to-slate-700''\<rparr> ]"

text \<open>\<^verbatim>\<open>UPLOAD_SLOTS.find(s => s.source === source)\<close>\<close>

definition find_slot :: "UploadSource \<Rightarrow> UploadSlot option" where
  "find_slot src = find (\<lambda>sl. slot_source sl = src) UPLOAD_SLOTS"

text \<open>\<^verbatim>\<open>dailyUpload[slot.key]\<close>: reading a ready flag through its field name.\<close>

fun get_ready :: "ReadyKey \<Rightarrow> DailyUpload \<Rightarrow> bool" where
  "get_ready K_ubereats_ready r = ubereats_ready r"
| "get_ready K_doordash_ready r = doordash_ready r"
| "get_ready K_grubhub_ready r = grubhub_ready r"
| "get_ready K_offline_ready r = offline_ready r"

text \<open>The name of a source as the template string of the storage path prints it.\<close>

fun source_name :: "UploadSource \<Rightarrow> string" where
  "source_name UberEats = ''UberEats''"
| "source_name DoorDash = ''DoorDash''"
| "source_name Grubhub = ''Grubhub''"
| "source_name Offline = ''Offline''"

datatype File = File (file_name: string) (file_content: string)

section \<open>The collaborators\<close>

text \<open>
  An error object of a collaborator: the handlers read its \<^verbatim>\<open>message\<close> (with a
  fallback when it is absent) and, in one place, its \<^verbatim>\<open>code\<close>.
\<close>

datatype CollabError = CollabError (err_message: "string option") (err_code: "string option")

text \<open>
  How one request to a collaborator ends: it succeeds, it resolves with an error object,
  or the promise rejects. The outcome of every request is an input of the handler that
  sends it.
\<close>

datatype Outcome = Ok | Returned CollabError | Thrown CollabError

fun failure :: "Outcome \<Rightarrow> CollabError option" where
  "failure Ok = None"
| "failure (Returned e) = Some e"
| "failure (Thrown e) = Some e"

text \<open>\<^verbatim>\<open>e.message ?? fallback\<close>\<close>

definition message_or :: "CollabError \<Rightarrow> string \<Rightarrow> string" where
  "message_or e fallback = (case err_message e of Some m \<Rightarrow> m | None \<Rightarrow> fallback)"

text \<open>
  The patch object that \<^verbatim>\<open>handleUploadSource\<close> passes to \<^verbatim>\<open>upsert\<close>. A ready
  flag that the object literal does not mention is \<open>None\<close>.
\<close>

record UpsertPayload =
  pl_user_id :: string
  pl_restaurant_name :: string
  pl_upload_date :: string
  pl_ubereats_ready :: "bool option"
  pl_doordash_ready :: "bool option"
  pl_grubhub_ready :: "bool option"
  pl_offline_ready :: "bool option"
  pl_updated_at :: string

text \<open>The write requests that the upload state machine sends, in the order sent.\<close>

datatype Call =
    StorageUpload string File
  | UpsertDailyUpload UpsertPayload string
  | UpdateStatus string ProcessingStatus

record Backend =
  profiles :: "Profile list"
  daily_uploads :: "DailyUpload list"
  raw_uploads :: "(string \<times> File) list"
  calls :: "Call list"

text \<open>
  Modelled from the spec: the blob store collaborator, \<^verbatim>\<open>putObject(bucket, path,
  bytes, {overwrite})\<close>. With overwrite set the object at the path is replaced.
\<close>

definition put_object :: "string \<Rightarrow> File \<Rightarrow> (string \<times> File) list \<Rightarrow> (string \<times> File) list" where
  "put_object path f objs = (path, f) # filter (\<lambda>po. fst po \<noteq> path) objs"

text \<open>
  Modelled from the spec: the structured store collaborator's
  \<^verbatim>\<open>upsert(table, row, conflictKeys)\<close> on the daily-upload table, whose natural key
  is (restaurant name, upload date). A row with the key of the payload takes the
  payload's fields and keeps every field the payload does not mention; when there is no
  such row one is created, with the ready flags that the payload does not mention false
  and the status pending. The identifier and creation time of a new row are the
  store's, and are inputs here.
\<close>

definition conflicts :: "UpsertPayload \<Rightarrow> DailyUpload \<Rightarrow> bool" where
  "conflicts pl r \<longleftrightarrow>
     restaurant_name r = pl_restaurant_name pl \<and> upload_date r = pl_upload_date pl"

definition patch_flag :: "bool option \<Rightarrow> bool \<Rightarrow> bool" where
  "patch_flag p old = (case p of Some v \<Rightarrow> v | None \<Rightarrow> old)"

definition apply_payload :: "UpsertPayload \<Rightarrow> DailyUpload \<Rightarrow> DailyUpload" where
  "apply_payload pl r =
     r\<lparr> user_id := pl_user_id pl,
        restaurant_name := pl_restaurant_name pl,
        upload_date := pl_upload_date pl,
        ubereats_ready := patch_flag (pl_ubereats_ready pl) (ubereats_ready r),
        doordash_ready := patch_flag (pl_doordash_ready pl) (doordash_ready r),
        grubhub_ready := patch_flag (pl_grubhub_ready pl) (grubhub_ready r),
        offline_ready := patch_flag (pl_offline_ready pl) (offline_ready r),
        updated_at := pl_updated_at pl \<rparr>"

definition new_row :: "string \<Rightarrow> string \<Rightarrow> UpsertPayload \<Rightarrow> DailyUpload" where
  "new_row new_id db_now pl =
     \<lparr> du_id = new_id,
       user_id = pl_user_id pl,
       restaurant_name = pl_restaurant_name pl,
       upload_date = pl_upload_date pl,
       ubereats_ready = patch_flag (pl_ubereats_ready pl) False,
       doordash_ready = patch_flag (pl_doordash_ready pl) False,
       grubhub_ready = patch_flag (pl_grubhub_ready pl) False,
       offline_ready = patch_flag (pl_offline_ready pl) False,
       processing_status = Pending,
       created_at = db_now,
       updated_at = pl_updated_at pl \<rparr>"

definition upsert_rows :: "string \<Rightarrow> string \<Rightarrow> UpsertPayload \<Rightarrow> DailyUpload list \<Rightarrow> DailyUpload list" where
  "upsert_rows new_id db_now pl tbl =
     (if list_ex (conflicts pl) tbl
      then map (\<lambda>r. if conflicts pl r then apply_payload pl r else r) tbl
      else tbl @ [new_row new_id db_now pl])"

text \<open>
  Modelled from the spec: the structured store collaborator's
  \<^verbatim>\<open>update(table, id, patch)\<close> with the patch \<^verbatim>\<open>{processing_status: st}\<close>.
\<close>

definition update_status :: "string \<Rightarrow> ProcessingStatus \<Rightarrow> DailyUpload list \<Rightarrow> DailyUpload list" where
  "update_status rid st tbl =
     map (\<lambda>r. if du_id r = rid then r\<lparr>processing_status := st\<rparr> else r) tbl"

text \<open>
  The result object \<^verbatim>\<open>{ data, error }\<close> of a query. \<^verbatim>\<open>maybeSingle()\<close> gives the
  row when exactly one matches and no data when none does; \<^verbatim>\<open>single()\<close> wants
  exactly one. More rows than one are the error \<^verbatim>\<open>PGRST116\<close>.
\<close>

datatype 'a QueryResult = QueryResult (q_data: "'a option") (q_error: "CollabError option")

definition PGRST116 :: CollabError where
  "PGRST116 = CollabError (Some ''JSON object requested, multiple (or no) rows returned'')
                          (Some ''PGRST116'')"

fun maybeSingle :: "'a list \<Rightarrow> 'a QueryResult" where
  "maybeSingle [] = QueryResult None None"
| "maybeSingle [r] = QueryResult (Some r) None"
| "maybeSingle (r # r' # rs) = QueryResult None (Some PGRST116)"

fun single :: "'a list \<Rightarrow> 'a QueryResult" where
  "single [r] = QueryResult (Some r) None"
| "single rs = QueryResult None (Some PGRST116)"

text \<open>
  An awaited request under an outcome: the promise resolves with a result object, or it
  rejects and the caller's \<^verbatim>\<open>catch\<close> block receives the error.
\<close>

datatype 'a Awaited = Resolved "'a QueryResult" | Rejected CollabError

fun query :: "Outcome \<Rightarrow> 'a QueryResult \<Rightarrow> 'a Awaited" where
  "query Ok q = Resolved q"
| "query (Returned e) q = Resolved (QueryResult None (Some e))"
| "query (Thrown e) q = Rejected e"

section \<open>The state of the page\<close>

text \<open>
  The \<^verbatim>\<open>useState\<close> cells of \<^verbatim>\<open>Home\<close>, and the timers that
  \<^verbatim>\<open>handleStartProcessing\<close> has scheduled and that have not fired yet: each holds
  the record id that its closure captured.
\<close>

record Home =
  stage :: Stage
  userId :: "string option"
  email :: string
  password :: string
  authMode :: AuthMode
  loading :: bool
  initializing :: bool
  error :: "string option"
  restaurantName :: string
  uploadedFiles :: "UploadSource \<Rightarrow> File option"
  dailyUpload :: "DailyUpload option"
  profile :: "Profile option"
  pending_timers :: "string list"

definition initial_Home :: Home where
  "initial_Home =
     \<lparr> stage = StAuth, userId = None, email = [], password = [], authMode = Login,
       loading = False, initializing = True, error = None, restaurantName = [],
       uploadedFiles = (\<lambda>src. None), dailyUpload = None, profile = None,
       pending_timers = [] \<rparr>"

text \<open>\<^verbatim>\<open>new Date().toISOString().split('T')[0]\<close>, the clock reading being an input.\<close>

definition today_of :: "string \<Rightarrow> string" where
  "today_of now = takeWhile (\<lambda>c. c \<noteq> CHR ''T'') now"

section \<open>Session restore\<close>

text \<open>
  The three loaders only call state setters, so each is given as the list of the states
  that follow one another, one per setter call; the state a loader ends in is the last
  of them.
\<close>

definition final :: "Home \<Rightarrow> Home list \<Rightarrow> Home" where
  "final s steps = last (s # steps)"

definition select_today :: "string \<Rightarrow> string \<Rightarrow> string \<Rightarrow> DailyUpload list \<Rightarrow> DailyUpload list" where
  "select_today uid restName today tbl =
     filter (\<lambda>r. user_id r = uid \<and> restaurant_name r = restName \<and> upload_date r = today) tbl"

definition stage_for_status :: "ProcessingStatus \<Rightarrow> Stage" where
  "stage_for_status st = (if st = InProcessing \<or> st = Completed then StProcessing else StUpload)"

definition loadTodayUpload_steps ::
  "Outcome \<Rightarrow> string \<Rightarrow> string \<Rightarrow> string \<Rightarrow> Backend \<Rightarrow> Home \<Rightarrow> Home list" where
  "loadTodayUpload_steps oc now uid restName b s =
     (case query oc (maybeSingle (select_today uid restName (today_of now) (daily_uploads b))) of
        Rejected e \<Rightarrow> [s\<lparr>stage := StUpload\<rparr>]
      | Resolved q \<Rightarrow>
          (case q_data q of
             Some d \<Rightarrow>
               [s\<lparr>dailyUpload := Some d\<rparr>,
                s\<lparr>dailyUpload := Some d, stage := stage_for_status (processing_status d)\<rparr>]
           | None \<Rightarrow> [s\<lparr>stage := StUpload\<rparr>]))"

definition loadTodayUpload ::
  "Outcome \<Rightarrow> string \<Rightarrow> string \<Rightarrow> string \<Rightarrow> Backend \<Rightarrow> Home \<Rightarrow> Home" where
  "loadTodayUpload oc now uid restName b s = final s (loadTodayUpload_steps oc now uid restName b s)"

definition loadProfile_steps ::
  "Outcome \<Rightarrow> Outcome \<Rightarrow> string \<Rightarrow> string \<Rightarrow> Backend \<Rightarrow> Home \<Rightarrow> Home list" where
  "loadProfile_steps poc uoc now uid b s =
     (case query poc (maybeSingle (filter (\<lambda>p. profile_id p = uid) (profiles b))) of
        Rejected e \<Rightarrow> [s\<lparr>stage := StOnboarding\<rparr>]
      | Resolved q \<Rightarrow>
          (case q_error q of
             Some e \<Rightarrow> [s\<lparr>stage := StOnboarding\<rparr>]
           | None \<Rightarrow>
               (case q_data q of
                  None \<Rightarrow> [s\<lparr>stage := StOnboarding\<rparr>]
                | Some profileData \<Rightarrow>
                    (let s1 = s\<lparr>profile := Some profileData\<rparr>;
                         s2 = s1\<lparr>restaurantName := profile_restaurant_name profileData\<rparr>
                     in [s1, s2] @
                        loadTodayUpload_steps uoc now uid (profile_restaurant_name profileData) b s2))))"

definition loadProfile ::
  "Outcome \<Rightarrow> Outcome \<Rightarrow> string \<Rightarrow> string \<Rightarrow> Backend \<Rightarrow> Home \<Rightarrow> Home" where
  "loadProfile poc uoc now uid b s = final s (loadProfile_steps poc uoc now uid b s)"

text \<open>
  The effect run on mount. \<open>soc\<close> is the outcome of the session query and \<open>sess\<close> the
  identity of the session it finds, if any.
\<close>

definition init_steps ::
  "Outcome \<Rightarrow> string option \<Rightarrow> Outcome \<Rightarrow> Outcome \<Rightarrow> string \<Rightarrow> Backend \<Rightarrow> Home \<Rightarrow> Home list" where
  "init_steps soc sess poc uoc now b s =
     (let body =
        (case soc of
           Thrown e \<Rightarrow> [s\<lparr>stage := StAuth\<rparr>]
         | Returned e \<Rightarrow> [s\<lparr>stage := StAuth\<rparr>]
         | Ok \<Rightarrow>
             (case sess of
                None \<Rightarrow> [s\<lparr>stage := StAuth\<rparr>]
              | Some uid \<Rightarrow>
                  (let s1 = s\<lparr>userId := Some uid\<rparr>
                   in s1 # loadProfile_steps poc uoc now uid b s1)))
      in body @ [(final s body)\<lparr>initializing := False\<rparr>])"

definition init ::
  "Outcome \<Rightarrow> string option \<Rightarrow> Outcome \<Rightarrow> Outcome \<Rightarrow> string \<Rightarrow> Backend \<Rightarrow> Home \<Rightarrow> Home" where
  "init soc sess poc uoc now b s = final s (init_steps soc sess poc uoc now b s)"

section \<open>Login and logout\<close>

definition handleAuth ::
  "Outcome \<Rightarrow> string option \<Rightarrow> Outcome \<Rightarrow> Outcome \<Rightarrow> string \<Rightarrow> Backend \<Rightarrow> Home \<Rightarrow> Home" where
  "handleAuth aoc user poc uoc now b s =
     (let s0 = s\<lparr>error := None, loading := True\<rparr>
      in case failure aoc of
           Some e \<Rightarrow> s0\<lparr>error := Some (message_or e ''Something went wrong''), loading := False\<rparr>
         | None \<Rightarrow>
             (case user of
                None \<Rightarrow> s0\<lparr>loading := False\<rparr>
              | Some uid \<Rightarrow>
                  (case authMode s of
                     Login \<Rightarrow> (loadProfile poc uoc now uid b (s0\<lparr>userId := Some uid\<rparr>))\<lparr>loading := False\<rparr>
                   | Signup \<Rightarrow> s0\<lparr>userId := Some uid, stage := StOnboarding, loading := False\<rparr>)))"

text \<open>
  Logout resets the state cells. It clears no timer: the function has no
  \<^verbatim>\<open>clearTimeout\<close>.
\<close>

definition handleLogout :: "Outcome \<Rightarrow> Home \<Rightarrow> Home" where
  "handleLogout oc s =
     (case oc of
        Thrown e \<Rightarrow> s
      | _ \<Rightarrow> s\<lparr> userId := None, stage := StAuth, uploadedFiles := (\<lambda>src. None),
               dailyUpload := None, profile := None, email := [], password := [],
               restaurantName := [] \<rparr>)"

section \<open>The upload state machine\<close>

definition handleFileSelect :: "UploadSource \<Rightarrow> File option \<Rightarrow> Home \<Rightarrow> Home" where
  "handleFileSelect src file s = s\<lparr>uploadedFiles := (uploadedFiles s)(src := file)\<rparr>"

text \<open>\<^verbatim>\<open>[slot.key]: true\<close>\<close>

fun set_ready_true :: "ReadyKey \<Rightarrow> UpsertPayload \<Rightarrow> UpsertPayload" where
  "set_ready_true K_ubereats_ready pl = pl\<lparr>pl_ubereats_ready := Some True\<rparr>"
| "set_ready_true K_doordash_ready pl = pl\<lparr>pl_doordash_ready := Some True\<rparr>"
| "set_ready_true K_grubhub_ready pl = pl\<lparr>pl_grubhub_ready := Some True\<rparr>"
| "set_ready_true K_offline_ready pl = pl\<lparr>pl_offline_ready := Some True\<rparr>"

definition upload_payload :: "string \<Rightarrow> Profile \<Rightarrow> string \<Rightarrow> ReadyKey \<Rightarrow> string \<Rightarrow> UpsertPayload" where
  "upload_payload uid prof today k stamp =
     set_ready_true k
       \<lparr> pl_user_id = uid,
         pl_restaurant_name = profile_restaurant_name prof,
         pl_upload_date = today,
         pl_ubereats_ready = None, pl_doordash_ready = None,
         pl_grubhub_ready = None, pl_offline_ready = None,
         pl_updated_at = stamp \<rparr>"

text \<open>
  What one run of \<^verbatim>\<open>handleUploadSource\<close> takes from outside: the outcomes of its
  two requests, its two clock readings, and the identifier and creation time the store
  would give a new row.
\<close>

record UploadEnv =
  blob_outcome :: Outcome
  upsert_outcome :: Outcome
  clock_today :: string
  clock_stamp :: string
  store_id :: string
  store_now :: string

definition ON_CONFLICT :: string where
  "ON_CONFLICT = ''restaurant_name,upload_date''"

definition handleUploadSource :: "UploadSource \<Rightarrow> UploadEnv \<Rightarrow> Home \<times> Backend \<Rightarrow> Home \<times> Backend" where
  "handleUploadSource src env sb =
     (let s = fst sb; b = snd sb;
          missing = (s\<lparr>error := Some ''Missing file or profile information''\<rparr>, b)
      in case uploadedFiles s src of
           None \<Rightarrow> missing
         | Some file \<Rightarrow>
         (case userId s of
           None \<Rightarrow> missing
         | Some uid \<Rightarrow>
         (case profile s of
           None \<Rightarrow> missing
         | Some prof \<Rightarrow>
           if uid = [] then missing
           else
             (let s1 = s\<lparr>loading := True, error := None\<rparr>;
                  today = today_of (clock_today env);
                  path = profile_restaurant_name prof @ ''/'' @ today @ ''/'' @ source_name src @ ''.csv'';
                  b1 = b\<lparr> calls := calls b @ [StorageUpload path file],
                          raw_uploads := (if blob_outcome env = Ok
                                          then put_object path file (raw_uploads b)
                                          else raw_uploads b) \<rparr>
              in case failure (blob_outcome env) of
                   Some e \<Rightarrow> (s1\<lparr>error := Some (message_or e ''Upload failed''), loading := False\<rparr>, b1)
                 | None \<Rightarrow>
                   (case find_slot src of
                      None \<Rightarrow> (s1\<lparr>loading := False\<rparr>, b1)
                    | Some slot \<Rightarrow>
                      (let pl = upload_payload uid prof today (slot_key slot) (clock_stamp env);
                           tbl = (if upsert_outcome env = Ok
                                  then upsert_rows (store_id env) (store_now env) pl (daily_uploads b1)
                                  else daily_uploads b1);
                           b2 = b1\<lparr> calls := calls b1 @ [UpsertDailyUpload pl ON_CONFLICT],
                                   daily_uploads := tbl \<rparr>
                       in case query (upsert_outcome env) (single (filter (conflicts pl) tbl)) of
                            Rejected e \<Rightarrow>
                              (s1\<lparr>error := Some (message_or e ''Upload failed''), loading := False\<rparr>, b2)
                          | Resolved q \<Rightarrow>
                              (case q_error q of
                                 Some e \<Rightarrow>
                                   (s1\<lparr>error := Some (message_or e ''Upload failed''),
                                       loading := False\<rparr>, b2)
                               | None \<Rightarrow>
                                   (s1\<lparr> dailyUpload := q_data q,
                                        uploadedFiles := (uploadedFiles s1)(src := None),
                                        loading := False \<rparr>, b2))))))))"

text \<open>
  \<^verbatim>\<open>handleStartProcessing\<close>. On success it schedules the completion timer, whose
  closure holds \<^verbatim>\<open>dailyUpload.id\<close> of the render that ran the handler.
\<close>

definition handleStartProcessing :: "Outcome \<Rightarrow> Home \<times> Backend \<Rightarrow> Home \<times> Backend" where
  "handleStartProcessing oc sb =
     (let s = fst sb; b = snd sb
      in case dailyUpload s of
           None \<Rightarrow> (s, b)
         | Some du \<Rightarrow>
         (case userId s of
           None \<Rightarrow> (s, b)
         | Some uid \<Rightarrow>
           if uid = [] then (s, b)
           else
             (let s1 = s\<lparr>loading := True, error := None\<rparr>;
                  b1 = b\<lparr> calls := calls b @ [UpdateStatus (du_id du) InProcessing],
                          daily_uploads := (if oc = Ok
                                            then update_status (du_id du) InProcessing (daily_uploads b)
                                            else daily_uploads b) \<rparr>
              in case failure oc of
                   Some e \<Rightarrow>
                     (s1\<lparr>error := Some (message_or e ''Failed to start processing''),
                         loading := False\<rparr>, b1)
                 | None \<Rightarrow>
                     (s1\<lparr> dailyUpload :=
                            map_option (\<lambda>prev. prev\<lparr>processing_status := InProcessing\<rparr>) (dailyUpload s1),
                          stage := StProcessing,
                          pending_timers := pending_timers s1 @ [du_id du],
                          loading := False \<rparr>, b1))))"

text \<open>
  The callback of the oldest pending timer runs: it sends the update for the id its
  closure holds, ignores the result object, and then maps the current
  \<^verbatim>\<open>dailyUpload\<close> cell, whatever record it holds. A rejected promise ends the
  callback before the state setter.
\<close>

definition completion_timer :: "Outcome \<Rightarrow> Home \<times> Backend \<Rightarrow> Home \<times> Backend" where
  "completion_timer oc sb =
     (let s = fst sb; b = snd sb
      in case pending_timers s of
           [] \<Rightarrow> (s, b)
         | rid # rest \<Rightarrow>
             (let s1 = s\<lparr>pending_timers := rest\<rparr>;
                  b1 = b\<lparr> calls := calls b @ [UpdateStatus rid Completed],
                          daily_uploads := (if oc = Ok
                                            then update_status rid Completed (daily_uploads b)
                                            else daily_uploads b) \<rparr>
              in case oc of
                   Thrown e \<Rightarrow> (s1, b1)
                 | _ \<Rightarrow>
                     (s1\<lparr> dailyUpload :=
                            map_option (\<lambda>prev. prev\<lparr>processing_status := Completed\<rparr>) (dailyUpload s1) \<rparr>,
                      b1)))"

section \<open>Rendering\<close>

text \<open>\<^verbatim>\<open>[...].filter(Boolean).length\<close>, and 0 without a record.\<close>

definition readySourcesCount :: "DailyUpload option \<Rightarrow> nat" where
  "readySourcesCount du =
     (case du of
        Some d \<Rightarrow> length (filter (\<lambda>flag. flag)
                    [ubereats_ready d, doordash_ready d, grubhub_ready d, offline_ready d])
      | None \<Rightarrow> 0)"

text \<open>
  What \<^verbatim>\<open>Home\<close> returns: the loading line while initializing, else the section
  of the current stage. The upload section carries whether the block with the start
  button is in it; the processing section is rendered only with a record.
\<close>

datatype View = LoadingView | AuthView | OnboardingView | UploadView bool | ProcessingView | NoSection

definition render :: "Home \<Rightarrow> View" where
  "render s =
     (if initializing s then LoadingView
      else case stage s of
             StAuth \<Rightarrow> AuthView
           | StOnboarding \<Rightarrow> OnboardingView
           | StUpload \<Rightarrow> UploadView (readySourcesCount (dailyUpload s) > 0)
           | StProcessing \<Rightarrow> (if dailyUpload s \<noteq> None then ProcessingView else NoSection))"


text \<open>
  The start button is on the page, and it is not disabled. A click reaches
  \<^verbatim>\<open>handleStartProcessing\<close> only through such a button.
\<close>

definition start_button_rendered :: "Home \<Rightarrow> bool" where
  "start_button_rendered s \<longleftrightarrow> render s = UploadView True"

definition start_button_enabled :: "Home \<Rightarrow> bool" where
  "start_button_enabled s \<longleftrightarrow> start_button_rendered s \<and> \<not> loading s"

definition click_start_processing :: "Outcome \<Rightarrow> Home \<times> Backend \<Rightarrow> Home \<times> Backend" where
  "click_start_processing oc sb =
     (if start_button_enabled (fst sb) then handleStartProcessing oc sb else sb)"

section \<open>Examples and the vocabulary of the properties\<close>

text \<open>
  A logged-in owner of the restaurant Joes on the upload stage, with a DoorDash file
  selected; a store that holds the profile and no daily-upload row; and an upload on
  2024-05-01 in which both requests succeed.
\<close>

definition ex_profile :: Profile where
  "ex_profile = \<lparr> profile_id = ''u1'', profile_restaurant_name = ''Joes'',
       profile_created_at = ''2024-01-01T08:00'', profile_updated_at = ''2024-01-01T08:00'' \<rparr>"

definition ex_file :: File where
  "ex_file = File ''doordash.csv'' ''order,total''"

definition ex_home :: Home where
  "ex_home = initial_Home \<lparr> stage := StUpload, userId := Some ''u1'', initializing := False,
       restaurantName := ''Joes'', uploadedFiles := (\<lambda>src. None)(DoorDash := Some ex_file),
       profile := Some ex_profile \<rparr>"

definition ex_backend :: Backend where
  "ex_backend = \<lparr> profiles = [ex_profile], daily_uploads = [], raw_uploads = [], calls = [] \<rparr>"

definition ex_env :: UploadEnv where
  "ex_env = \<lparr> blob_outcome = Ok, upsert_outcome = Ok, clock_today = ''2024-05-01T21:00'',
       clock_stamp = ''2024-05-01T21:01'', store_id = ''r1'', store_now = ''2024-05-01T21:01'' \<rparr>"

text \<open>Today's row of Joes with Grubhub ready, a store that holds it, and a row with no flag set.\<close>

definition ex_row :: DailyUpload where
  "ex_row = \<lparr> du_id = ''r0'', user_id = ''u1'', restaurant_name = ''Joes'',
       upload_date = ''2024-05-01'', ubereats_ready = False, doordash_ready = False,
       grubhub_ready = True, offline_ready = False, processing_status = Pending,
       created_at = ''2024-05-01T20:00'', updated_at = ''2024-05-01T20:00'' \<rparr>"

definition ex_backend_row :: Backend where
  "ex_backend_row = ex_backend\<lparr>daily_uploads := [ex_row]\<rparr>"

definition ex_none_ready :: DailyUpload where
  "ex_none_ready = ex_row\<lparr>grubhub_ready := False\<rparr>"

text \<open>Reading a ready flag of a payload through its field name.\<close>

fun payload_flag :: "ReadyKey \<Rightarrow> UpsertPayload \<Rightarrow> bool option" where
  "payload_flag K_ubereats_ready pl = pl_ubereats_ready pl"
| "payload_flag K_doordash_ready pl = pl_doordash_ready pl"
| "payload_flag K_grubhub_ready pl = pl_grubhub_ready pl"
| "payload_flag K_offline_ready pl = pl_offline_ready pl"

text \<open>
  The field that the slot table gives a source; \<open>find_slot_key\<close> below shows that
  \<^verbatim>\<open>UPLOAD_SLOTS.find\<close> returns the slot with this key.
\<close>

fun ready_key :: "UploadSource \<Rightarrow> ReadyKey" where
  "ready_key UberEats = K_ubereats_ready"
| "ready_key DoorDash = K_doordash_ready"
| "ready_key Grubhub = K_grubhub_ready"
| "ready_key Offline = K_offline_ready"

text \<open>An error of the blob store.\<close>

definition ex_fail :: CollabError where
  "ex_fail = CollabError (Some ''Bucket not found'') None"


text \<open>The storage path of a source: restaurant name, day, source name.\<close>

definition upload_path :: "Profile \<Rightarrow> UploadEnv \<Rightarrow> UploadSource \<Rightarrow> string" where
  "upload_path prof env src =
     profile_restaurant_name prof @ ''/'' @ today_of (clock_today env) @ ''/'' @ source_name src @ ''.csv''"

text \<open>
  The five derived states. The page stores none of them: it keeps a stage and a record.
  What \<^verbatim>\<open>loadTodayUpload\<close> makes of a record is the stage \<open>stage_of_record\<close>, and
  \<open>view_of_record\<close> is the section rendered for that stage and record once
  initialization is over. A state is named by what is rendered: on the upload section
  AwaitingProcessingStart is the view with the start button and PartiallyUploaded the
  view without it; on the processing section the status tells Processing from
  Completed.
\<close>

datatype DerivedState =
  DS_NoRecordToday | DS_PartiallyUploaded | DS_AwaitingProcessingStart | DS_Processing | DS_Completed

definition stage_of_record :: "DailyUpload option \<Rightarrow> Stage" where
  "stage_of_record du =
     (case du of Some d \<Rightarrow> stage_for_status (processing_status d) | None \<Rightarrow> StUpload)"

definition view_of_record :: "DailyUpload option \<Rightarrow> View" where
  "view_of_record du =
     render (initial_Home\<lparr>initializing := False, dailyUpload := du, stage := stage_of_record du\<rparr>)"

definition derived_state :: "DailyUpload option \<Rightarrow> DerivedState" where
  "derived_state du =
     (case du of
        None \<Rightarrow> DS_NoRecordToday
      | Some d \<Rightarrow>
          (case processing_status d of
             InProcessing \<Rightarrow> DS_Processing
           | Completed \<Rightarrow> DS_Completed
           | Pending \<Rightarrow>
               if view_of_record du = UploadView True then DS_AwaitingProcessingStart
               else DS_PartiallyUploaded))"

text \<open>The natural key of a daily-upload row.\<close>

definition same_key :: "string \<Rightarrow> string \<Rightarrow> DailyUpload \<Rightarrow> bool" where
  "same_key rn day r \<longleftrightarrow> restaurant_name r = rn \<and> upload_date r = day"

text \<open>A second upload of a source: a file is selected again, then the handler runs.\<close>

definition upload_again ::
  "UploadSource \<Rightarrow> File \<Rightarrow> UploadEnv \<Rightarrow> Home \<times> Backend \<Rightarrow> Home \<times> Backend" where
  "upload_again src fl env sb =
     handleUploadSource src env (handleFileSelect src (Some fl) (fst sb), snd sb)"

text \<open>A second successful upload, later on the same day.\<close>

definition ex_env_later :: UploadEnv where
  "ex_env_later = ex_env\<lparr>clock_today := ''2024-05-01T22:30'', clock_stamp := ''2024-05-01T22:31'',
       store_id := ''r2'', store_now := ''2024-05-01T22:31''\<rparr>"

text \<open>
  The order pending, processing, completed. A row \<open>r'\<close> keeps the flags of \<open>r\<close> when
  it has the same id and every flag set in \<open>r\<close> is set in \<open>r'\<close>; it advances \<open>r\<close> when
  moreover its status is not behind. \<open>rows_rel R\<close> relates a table to a later one: no
  row is lost, and each row is related to the row at its place.
\<close>

fun status_rank :: "ProcessingStatus \<Rightarrow> nat" where
  "status_rank Pending = 0"
| "status_rank InProcessing = 1"
| "status_rank Completed = 2"

definition flags_kept :: "DailyUpload \<Rightarrow> DailyUpload \<Rightarrow> bool" where
  "flags_kept r r' \<longleftrightarrow>
     du_id r' = du_id r \<and>
     (ubereats_ready r \<longrightarrow> ubereats_ready r') \<and> (doordash_ready r \<longrightarrow> doordash_ready r') \<and>
     (grubhub_ready r \<longrightarrow> grubhub_ready r') \<and> (offline_ready r \<longrightarrow> offline_ready r')"

definition advances :: "DailyUpload \<Rightarrow> DailyUpload \<Rightarrow> bool" where
  "advances r r' \<longleftrightarrow>
     flags_kept r r' \<and> status_rank (processing_status r) \<le> status_rank (processing_status r')"

definition rows_rel :: "(DailyUpload \<Rightarrow> DailyUpload \<Rightarrow> bool) \<Rightarrow> DailyUpload list \<Rightarrow> DailyUpload list \<Rightarrow> bool" where
  "rows_rel R tbl tbl' \<longleftrightarrow> length tbl \<le> length tbl' \<and> list_all2 R tbl (take (length tbl) tbl')"

text \<open>
  A second identity whose restaurant is also called Joes, and a store in which today's
  row of Joes is completed. The second identity logs in, uploads DoorDash and clicks
  the start button.
\<close>

definition ex_profile_other :: Profile where
  "ex_profile_other = \<lparr> profile_id = ''u2'', profile_restaurant_name = ''Joes'',
       profile_created_at = ''2024-02-01T08:00'', profile_updated_at = ''2024-02-01T08:00'' \<rparr>"

definition ex_completed_backend :: Backend where
  "ex_completed_backend =
     \<lparr> profiles = [ex_profile, ex_profile_other],
       daily_uploads = [ex_row\<lparr>processing_status := Completed\<rparr>],
       raw_uploads = [], calls = [] \<rparr>"

definition ex_logged_out :: Home where
  "ex_logged_out = initial_Home\<lparr>initializing := False\<rparr>"

definition other_login :: Home where
  "other_login = handleAuth Ok (Some ''u2'') Ok Ok ''2024-05-01T21:00'' ex_completed_backend ex_logged_out"

definition other_upload :: "Home \<times> Backend" where
  "other_upload =
     handleUploadSource DoorDash ex_env
       (handleFileSelect DoorDash (Some ex_file) other_login, ex_completed_backend)"

definition other_start :: "Home \<times> Backend" where
  "other_start = click_start_processing Ok other_upload"

text \<open>
  A third identity, with the restaurant Bobs. The first identity starts processing and
  logs out; another identity logs in and uploads DoorDash; then the timer of the first
  session fires.
\<close>

definition ex_profile_bob :: Profile where
  "ex_profile_bob = \<lparr> profile_id = ''u3'', profile_restaurant_name = ''Bobs'',
       profile_created_at = ''2024-03-01T08:00'', profile_updated_at = ''2024-03-01T08:00'' \<rparr>"

definition timer_backend :: Backend where
  "timer_backend =
     \<lparr> profiles = [ex_profile, ex_profile_other, ex_profile_bob], daily_uploads = [ex_row],
       raw_uploads = [], calls = [] \<rparr>"

definition first_start :: "Home \<times> Backend" where
  "first_start = click_start_processing Ok (ex_home\<lparr>dailyUpload := Some ex_row\<rparr>, timer_backend)"

definition first_logout :: Home where
  "first_logout = handleLogout Ok (fst first_start)"

definition second_login :: "string \<Rightarrow> Home" where
  "second_login uid =
     handleAuth Ok (Some uid) Ok Ok ''2024-05-01T21:00'' (snd first_start) first_logout"

definition second_upload :: "string \<Rightarrow> Home \<times> Backend" where
  "second_upload uid =
     handleUploadSource DoorDash ex_env
       (handleFileSelect DoorDash (Some ex_file) (second_login uid), snd first_start)"

definition stale_timer :: "string \<Rightarrow> Home \<times> Backend" where
  "stale_timer uid = completion_timer Ok (second_upload uid)"

lemmas ex_defs = ex_profile_def ex_file_def ex_home_def ex_backend_def ex_env_def initial_Home_def

lemmas upload_defs = handleUploadSource_def Let_def find_slot_def UPLOAD_SLOTS_def
  upload_payload_def upsert_rows_def conflicts_def new_row_def apply_payload_def patch_flag_def
  today_of_def put_object_def message_or_def

section \<open>Upload: the selected file, the payload, failure\<close>

lemma find_slot_total: "\<exists>sl. find_slot src = Some sl"
  by (cases src) (simp_all add: find_slot_def UPLOAD_SLOTS_def)

lemma ex_upload_ok: "error (fst (handleUploadSource DoorDash ex_env (ex_home, ex_backend))) = None"
  by (simp add: upload_defs ex_defs)

text \<open>
  Claim C10. A run of \<^verbatim>\<open>handleUploadSource\<close> that ends without an error message is
  a successful one (every failing path sets the message). After it the selected file of
  the uploaded source is cleared, and the selected files of the other sources are as they
  were.
\<close>

theorem upload_clears_selected_file:
  assumes "error (fst (handleUploadSource src env (s, b))) = None"
  shows "uploadedFiles (fst (handleUploadSource src env (s, b))) src = None \<and>
         (\<forall>other. other \<noteq> src \<longrightarrow>
            uploadedFiles (fst (handleUploadSource src env (s, b))) other = uploadedFiles s other)"
proof -
  obtain sl where sl: "find_slot src = Some sl" using find_slot_total by blast
  show ?thesis
    using assms sl
    by (auto simp: handleUploadSource_def Let_def
             split: option.splits if_splits Awaited.splits)
qed

text \<open>The DoorDash file is cleared; the Grubhub cell keeps its value.\<close>

theorem upload_clears_selected_file_witness:
  "error (fst (handleUploadSource DoorDash ex_env (ex_home, ex_backend))) = None \<and>
   uploadedFiles ex_home DoorDash = Some ex_file \<and>
   uploadedFiles (fst (handleUploadSource DoorDash ex_env (ex_home, ex_backend))) DoorDash = None \<and>
   Grubhub \<noteq> DoorDash \<and>
   uploadedFiles (fst (handleUploadSource DoorDash ex_env (ex_home, ex_backend))) Grubhub
     = uploadedFiles ex_home Grubhub"
  using upload_clears_selected_file [of DoorDash ex_env ex_home ex_backend] ex_upload_ok
  by (simp add: ex_home_def)

lemma find_slot_key: "\<exists>sl. find_slot src = Some sl \<and> slot_source sl = src \<and> slot_key sl = ready_key src"
  by (cases src) (simp_all add: find_slot_def UPLOAD_SLOTS_def)

lemma payload_flag_upload:
  "payload_flag k (upload_payload uid prof today k' stamp) = (if k = k' then Some True else None)"
  by (cases k; cases k') (simp_all add: upload_payload_def)

lemma get_ready_apply_payload:
  "get_ready k (apply_payload pl r) = patch_flag (payload_flag k pl) (get_ready k r)"
  by (cases k) (simp_all add: apply_payload_def)

lemma upsert_rows_nth:
  "i < length tbl \<Longrightarrow>
   upsert_rows nid dbn pl tbl ! i = (if conflicts pl (tbl ! i) then apply_payload pl (tbl ! i) else tbl ! i)"
  by (auto simp: upsert_rows_def nth_append list_ex_iff)

lemma upsert_rows_length: "length tbl \<le> length (upsert_rows nid dbn pl tbl)"
  by (simp add: upsert_rows_def)

lemma upload_success_shape:
  assumes "error (fst (handleUploadSource src env (s, b))) = None"
  shows "\<exists>fl uid prof.
           uploadedFiles s src = Some fl \<and> userId s = Some uid \<and> uid \<noteq> [] \<and> profile s = Some prof \<and>
           blob_outcome env = Ok \<and> upsert_outcome env = Ok \<and>
           snd (handleUploadSource src env (s, b)) =
             b\<lparr> calls := calls b @
                   [StorageUpload (profile_restaurant_name prof @ ''/'' @ today_of (clock_today env) @ ''/''
                                    @ source_name src @ ''.csv'') fl,
                    UpsertDailyUpload (upload_payload uid prof (today_of (clock_today env)) (ready_key src)
                                         (clock_stamp env)) ON_CONFLICT],
                raw_uploads := put_object (profile_restaurant_name prof @ ''/'' @ today_of (clock_today env)
                                    @ ''/'' @ source_name src @ ''.csv'') fl (raw_uploads b),
                daily_uploads := upsert_rows (store_id env) (store_now env)
                                   (upload_payload uid prof (today_of (clock_today env)) (ready_key src)
                                         (clock_stamp env)) (daily_uploads b) \<rparr>"
proof -
  obtain sl where sl: "find_slot src = Some sl" "slot_key sl = ready_key src"
    using find_slot_key by blast
  show ?thesis
    using assms sl
    by (cases "blob_outcome env"; cases "upsert_outcome env")
       (auto simp: handleUploadSource_def Let_def split: option.splits if_splits)
qed

text \<open>
  Claim C9. After a successful \<^verbatim>\<open>handleUploadSource\<close> the last request sent is the
  upsert, and its payload sets the ready flag of the uploaded source to true and mentions
  no other ready flag. Every row that was in the table keeps its other three flags.
\<close>

theorem upload_payload_sets_one_flag:
  assumes "error (fst (handleUploadSource src env (s, b))) = None"
  shows "\<exists>pl. calls (snd (handleUploadSource src env (s, b))) \<noteq> [] \<and>
           last (calls (snd (handleUploadSource src env (s, b)))) = UpsertDailyUpload pl ON_CONFLICT \<and>
           payload_flag (ready_key src) pl = Some True \<and>
           (\<forall>k. k \<noteq> ready_key src \<longrightarrow> payload_flag k pl = None) \<and>
           (\<forall>k i. k \<noteq> ready_key src \<longrightarrow> i < length (daily_uploads b) \<longrightarrow>
              get_ready k (daily_uploads (snd (handleUploadSource src env (s, b))) ! i)
                = get_ready k (daily_uploads b ! i))"
proof -
  from upload_success_shape [OF assms] obtain fl uid prof where
    b': "snd (handleUploadSource src env (s, b)) =
             b\<lparr> calls := calls b @
                   [StorageUpload (profile_restaurant_name prof @ ''/'' @ today_of (clock_today env) @ ''/''
                                    @ source_name src @ ''.csv'') fl,
                    UpsertDailyUpload (upload_payload uid prof (today_of (clock_today env)) (ready_key src)
                                         (clock_stamp env)) ON_CONFLICT],
                raw_uploads := put_object (profile_restaurant_name prof @ ''/'' @ today_of (clock_today env)
                                    @ ''/'' @ source_name src @ ''.csv'') fl (raw_uploads b),
                daily_uploads := upsert_rows (store_id env) (store_now env)
                                   (upload_payload uid prof (today_of (clock_today env)) (ready_key src)
                                         (clock_stamp env)) (daily_uploads b) \<rparr>"
    by blast
  show ?thesis
    unfolding b'
    by (simp add: payload_flag_upload upsert_rows_nth get_ready_apply_payload patch_flag_def)
qed

lemma ex_upload_row_ok:
  "error (fst (handleUploadSource DoorDash ex_env (ex_home, ex_backend_row))) = None"
  by (simp add: upload_defs ex_defs ex_backend_row_def ex_row_def)

text \<open>
  Uploading DoorDash onto a row that has Grubhub ready: the payload names the DoorDash
  flag only and the row keeps Grubhub.
\<close>

theorem upload_payload_sets_one_flag_witness:
  "error (fst (handleUploadSource DoorDash ex_env (ex_home, ex_backend_row))) = None \<and>
   (\<exists>pl. last (calls (snd (handleUploadSource DoorDash ex_env (ex_home, ex_backend_row))))
            = UpsertDailyUpload pl ON_CONFLICT \<and>
          payload_flag K_doordash_ready pl = Some True \<and>
          payload_flag K_grubhub_ready pl = None) \<and>
   K_grubhub_ready \<noteq> ready_key DoorDash \<and> 0 < length (daily_uploads ex_backend_row) \<and>
   get_ready K_grubhub_ready (daily_uploads ex_backend_row ! 0) \<and>
   get_ready K_grubhub_ready
     (daily_uploads (snd (handleUploadSource DoorDash ex_env (ex_home, ex_backend_row))) ! 0)"
proof -
  have len: "0 < length (daily_uploads ex_backend_row)"
    by (simp add: ex_backend_row_def)
  have old: "get_ready K_grubhub_ready (daily_uploads ex_backend_row ! 0)"
    by (simp add: ex_backend_row_def ex_row_def)
  from upload_payload_sets_one_flag [OF ex_upload_row_ok] len old
  show ?thesis using ex_upload_row_ok by fastforce
qed




section \<open>Session restore and initialization\<close>

lemma loadTodayUpload_steps_keep:
  "t \<in> set (loadTodayUpload_steps oc now uid rn b s) \<Longrightarrow>
     initializing t = initializing s \<and> error t = error s \<and> userId t = userId s"
  by (cases oc)
     (auto simp: loadTodayUpload_steps_def split: option.splits)

lemma loadProfile_steps_keep:
  "t \<in> set (loadProfile_steps poc uoc now uid b s) \<Longrightarrow>
     initializing t = initializing s \<and> error t = error s \<and> userId t = userId s"
  by (cases poc)
     (auto simp: loadProfile_steps_def Let_def split: option.splits
           dest!: loadTodayUpload_steps_keep)

lemma loadProfile_no_profile:
  assumes "failure poc = Some e \<or> (poc = Ok \<and> filter (\<lambda>p. profile_id p = uid) (profiles b) = [])"
  shows "loadProfile_steps poc uoc now uid b s = [s\<lparr>stage := StOnboarding\<rparr>]"
  using assms by (cases poc) (auto simp: loadProfile_steps_def)

text \<open>
  Claim C7. Session restore for an identity whose profile read fails, or finds no row,
  ends on the onboarding stage; the error cell is what it was, so the failure of the read
  is not shown as an error message.
\<close>

theorem no_profile_routes_to_onboarding:
  assumes "failure poc = Some e \<or> (poc = Ok \<and> filter (\<lambda>p. profile_id p = uid) (profiles b) = [])"
  shows "init Ok (Some uid) poc uoc now b s =
           s\<lparr>userId := Some uid, stage := StOnboarding, initializing := False\<rparr> \<and>
         stage (init Ok (Some uid) poc uoc now b s) = StOnboarding \<and>
         error (init Ok (Some uid) poc uoc now b s) = error s \<and>
         render (init Ok (Some uid) poc uoc now b s) = OnboardingView"
  by (simp add: init_def init_steps_def final_def Let_def loadProfile_no_profile [OF assms] render_def)

text \<open>
  From the initial state of the page: a profile read that returns an error, and an
  identity with no profile row.
\<close>

theorem no_profile_routes_to_onboarding_witness:
  "failure (Returned ex_fail) = Some ex_fail \<and>
   init Ok (Some ''u1'') (Returned ex_fail) Ok ''2024-05-01T21:00'' ex_backend initial_Home =
     initial_Home\<lparr>userId := Some ''u1'', stage := StOnboarding, initializing := False\<rparr> \<and>
   error (init Ok (Some ''u1'') (Returned ex_fail) Ok ''2024-05-01T21:00'' ex_backend initial_Home) = None \<and>
   render (init Ok (Some ''u1'') (Returned ex_fail) Ok ''2024-05-01T21:00'' ex_backend initial_Home)
     = OnboardingView \<and>
   filter (\<lambda>p. profile_id p = ''u9'') (profiles ex_backend) = [] \<and>
   stage (init Ok (Some ''u9'') Ok Ok ''2024-05-01T21:00'' ex_backend initial_Home) = StOnboarding \<and>
   error (init Ok (Some ''u9'') Ok Ok ''2024-05-01T21:00'' ex_backend initial_Home) = None"
  using no_profile_routes_to_onboarding [of "Returned ex_fail" ex_fail "''u1''" ex_backend Ok
          "''2024-05-01T21:00''" initial_Home]
        no_profile_routes_to_onboarding [of Ok ex_fail "''u9''" ex_backend Ok
          "''2024-05-01T21:00''" initial_Home]
  by (simp add: initial_Home_def render_def ex_backend_def ex_profile_def)

lemma init_body_keep:
  assumes "t \<in> set (butlast (init_steps soc sess poc uoc now b s))"
  shows "initializing t = initializing s"
proof -
  have "butlast (init_steps soc sess poc uoc now b s) =
        (case soc of
           Thrown e \<Rightarrow> [s\<lparr>stage := StAuth\<rparr>]
         | Returned e \<Rightarrow> [s\<lparr>stage := StAuth\<rparr>]
         | Ok \<Rightarrow>
             (case sess of
                None \<Rightarrow> [s\<lparr>stage := StAuth\<rparr>]
              | Some uid \<Rightarrow> s\<lparr>userId := Some uid\<rparr> # loadProfile_steps poc uoc now uid b (s\<lparr>userId := Some uid\<rparr>)))"
    by (simp add: init_steps_def Let_def split: Outcome.splits option.splits)
  with assms show ?thesis
    by (auto split: Outcome.splits option.splits dest!: loadProfile_steps_keep)
qed

text \<open>
  Claim C8. From a state with the initializing flag set (the initial state has it), the
  page shows the loading line, and so does every state that \<^verbatim>\<open>init\<close> passes through
  before its last one, for each outcome of the session query and of the reads after
  it: none of them shows the auth section. Only the last step clears the flag.
\<close>

theorem loading_until_initialized:
  assumes "initializing s"
  shows "render s = LoadingView \<and>
         init_steps soc sess poc uoc now b s \<noteq> [] \<and>
         (\<forall>t \<in> set (butlast (init_steps soc sess poc uoc now b s)).
             initializing t \<and> render t = LoadingView \<and> render t \<noteq> AuthView) \<and>
         \<not> initializing (last (init_steps soc sess poc uoc now b s))"
proof -
  have 1: "render s = LoadingView" using assms by (simp add: render_def)
  have 2: "init_steps soc sess poc uoc now b s \<noteq> []" by (simp add: init_steps_def Let_def)
  have 3: "\<forall>t \<in> set (butlast (init_steps soc sess poc uoc now b s)).
             initializing t \<and> render t = LoadingView \<and> render t \<noteq> AuthView"
    using assms init_body_keep by (auto simp: render_def)
  have 4: "\<not> initializing (last (init_steps soc sess poc uoc now b s))"
    by (simp add: init_steps_def Let_def)
  from 1 2 3 4 show ?thesis by blast
qed

text \<open>No session: the stage is set to auth under the loading line, then the flag is cleared.\<close>

theorem loading_until_initialized_witness:
  "initializing initial_Home \<and> render initial_Home = LoadingView \<and>
   init_steps Ok None Ok Ok ''2024-05-01T21:00'' ex_backend initial_Home =
     [initial_Home\<lparr>stage := StAuth\<rparr>, initial_Home\<lparr>stage := StAuth, initializing := False\<rparr>] \<and>
   initial_Home\<lparr>stage := StAuth\<rparr>
     \<in> set (butlast (init_steps Ok None Ok Ok ''2024-05-01T21:00'' ex_backend initial_Home)) \<and>
   render (initial_Home\<lparr>stage := StAuth\<rparr>) = LoadingView \<and>
   \<not> initializing (last (init_steps Ok None Ok Ok ''2024-05-01T21:00'' ex_backend initial_Home))"
proof -
  have steps: "init_steps Ok None Ok Ok ''2024-05-01T21:00'' ex_backend initial_Home =
     [initial_Home\<lparr>stage := StAuth\<rparr>, initial_Home\<lparr>stage := StAuth, initializing := False\<rparr>]"
    by (simp add: init_steps_def Let_def final_def)
  have ini: "initializing initial_Home" by (simp add: initial_Home_def)
  from loading_until_initialized [OF ini, of Ok None Ok Ok "''2024-05-01T21:00''" ex_backend]
  show ?thesis using steps ini by simp
qed

section \<open>The start action and the derived state\<close>

lemma readySourcesCount_pos:
  "0 < readySourcesCount (Some r) \<longleftrightarrow>
     ubereats_ready r \<or> doordash_ready r \<or> grubhub_ready r \<or> offline_ready r"
  by (simp add: readySourcesCount_def)

text \<open>
  Claim C1. The start button is the one place that calls \<^verbatim>\<open>handleStartProcessing\<close>.
  With all four ready flags of the current record false the count of ready sources is 0
  and the block with the button is not rendered, so invoking StartProcessing does
  nothing: no request goes to the store, and the page state and the persisted table
  stay as they are.
\<close>

theorem start_hidden_when_none_ready:
  assumes "dailyUpload s = Some r"
    and "\<not> ubereats_ready r" and "\<not> doordash_ready r" and "\<not> grubhub_ready r" and "\<not> offline_ready r"
  shows "readySourcesCount (dailyUpload s) = 0 \<and> \<not> start_button_rendered s \<and>
         click_start_processing oc (s, b) = (s, b)"
  using assms
  by (simp add: readySourcesCount_def start_button_rendered_def start_button_enabled_def
        click_start_processing_def render_def split: Stage.splits)

text \<open>The upload stage with a record that has no ready flag.\<close>

theorem start_hidden_when_none_ready_witness:
  "dailyUpload (ex_home\<lparr>dailyUpload := Some ex_none_ready\<rparr>) = Some ex_none_ready \<and>
   \<not> ubereats_ready ex_none_ready \<and> \<not> doordash_ready ex_none_ready \<and>
   \<not> grubhub_ready ex_none_ready \<and> \<not> offline_ready ex_none_ready \<and>
   \<not> start_button_rendered (ex_home\<lparr>dailyUpload := Some ex_none_ready\<rparr>) \<and>
   click_start_processing Ok (ex_home\<lparr>dailyUpload := Some ex_none_ready\<rparr>, ex_backend_row)
     = (ex_home\<lparr>dailyUpload := Some ex_none_ready\<rparr>, ex_backend_row)"
  using start_hidden_when_none_ready [of "ex_home\<lparr>dailyUpload := Some ex_none_ready\<rparr>" ex_none_ready Ok ex_backend_row]
  by (simp add: ex_none_ready_def ex_row_def)

lemma loadTodayUpload_found:
  "select_today uid rn (today_of now) (daily_uploads b) = [r] \<Longrightarrow>
   loadTodayUpload Ok now uid rn b s = s\<lparr>dailyUpload := Some r, stage := stage_of_record (Some r)\<rparr>"
  by (simp add: loadTodayUpload_def loadTodayUpload_steps_def final_def stage_of_record_def)

text \<open>
  Claim C4, as amended. For a pending record with at least one ready flag true the page
  shows the upload section with the start button (the state AwaitingProcessingStart),
  whether or not the other flags are true; the upload section without the start button
  (PartiallyUploaded) is what a pending record with all four flags false gives. Both are
  functions of the record alone, and \<^verbatim>\<open>loadTodayUpload\<close> followed by the end of
  initialization renders exactly that view for the record it finds.
\<close>

theorem pending_record_state:
  assumes "processing_status r = Pending"
  shows "(ubereats_ready r \<or> doordash_ready r \<or> grubhub_ready r \<or> offline_ready r \<longrightarrow>
            derived_state (Some r) = DS_AwaitingProcessingStart \<and>
            view_of_record (Some r) = UploadView True) \<and>
         (\<not> ubereats_ready r \<and> \<not> doordash_ready r \<and> \<not> grubhub_ready r \<and> \<not> offline_ready r \<longrightarrow>
            derived_state (Some r) = DS_PartiallyUploaded \<and>
            view_of_record (Some r) = UploadView False) \<and>
         (select_today uid rn (today_of now) (daily_uploads b) = [r] \<longrightarrow>
            render ((loadTodayUpload Ok now uid rn b s)\<lparr>initializing := False\<rparr>) = view_of_record (Some r))"
proof -
  have v: "view_of_record (Some r) = UploadView (0 < readySourcesCount (Some r))"
    using assms
    by (simp add: view_of_record_def render_def stage_of_record_def stage_for_status_def)
  have l: "select_today uid rn (today_of now) (daily_uploads b) = [r] \<Longrightarrow>
            render ((loadTodayUpload Ok now uid rn b s)\<lparr>initializing := False\<rparr>) = view_of_record (Some r)"
    by (simp add: loadTodayUpload_found view_of_record_def render_def split: Stage.splits)
  show ?thesis
    using assms l by (auto simp: derived_state_def v readySourcesCount_pos)
qed

text \<open>A pending record with Grubhub ready only, and one with nothing ready.\<close>

theorem pending_record_state_witness:
  "processing_status ex_row = Pending \<and> grubhub_ready ex_row \<and> \<not> doordash_ready ex_row \<and>
   derived_state (Some ex_row) = DS_AwaitingProcessingStart \<and>
   view_of_record (Some ex_row) = UploadView True \<and>
   processing_status ex_none_ready = Pending \<and> \<not> grubhub_ready ex_none_ready \<and>
   derived_state (Some ex_none_ready) = DS_PartiallyUploaded \<and>
   select_today ''u1'' ''Joes'' (today_of ''2024-05-01T21:00'') (daily_uploads ex_backend_row) = [ex_row] \<and>
   render ((loadTodayUpload Ok ''2024-05-01T21:00'' ''u1'' ''Joes'' ex_backend_row ex_home)\<lparr>initializing := False\<rparr>)
     = UploadView True"
proof -
  have p1: "processing_status ex_row = Pending" by (simp add: ex_row_def)
  have p2: "processing_status ex_none_ready = Pending" by (simp add: ex_none_ready_def ex_row_def)
  have sel: "select_today ''u1'' ''Joes'' (today_of ''2024-05-01T21:00'') (daily_uploads ex_backend_row) = [ex_row]"
    by (simp add: select_today_def today_of_def ex_backend_row_def ex_backend_def ex_row_def)
  from pending_record_state [OF p1, of "''u1''" "''Joes''" "''2024-05-01T21:00''" ex_backend_row ex_home]
       pending_record_state [OF p2, of "''u1''" "''Joes''" "''2024-05-01T21:00''" ex_backend_row ex_home]
       sel p1 p2
  show ?thesis by (simp add: ex_row_def ex_none_ready_def)
qed

text \<open>
  Claim C4 as stated fails: a pending record with Grubhub ready and Uber Eats not ready
  has a ready flag false, yet the page shows the start button for it, which is the state
  AwaitingProcessingStart and not PartiallyUploaded.
\<close>

theorem one_ready_flag_is_awaiting_start:
  "processing_status ex_row = Pending \<and> \<not> ubereats_ready ex_row \<and>
   derived_state (Some ex_row) = DS_AwaitingProcessingStart \<and>
   derived_state (Some ex_row) \<noteq> DS_PartiallyUploaded \<and>
   view_of_record (Some ex_row) = UploadView True"
  by (simp add: derived_state_def view_of_record_def render_def stage_of_record_def
        stage_for_status_def readySourcesCount_def ex_row_def)

section \<open>Uploading the same source twice\<close>

lemma conflicts_same_key:
  "conflicts pl = same_key (pl_restaurant_name pl) (pl_upload_date pl)"
  by (rule ext) (simp add: conflicts_def same_key_def)

lemma upload_payload_key:
  "pl_restaurant_name (upload_payload uid prof day k stamp) = profile_restaurant_name prof"
  "pl_upload_date (upload_payload uid prof day k stamp) = day"
  "pl_user_id (upload_payload uid prof day k stamp) = uid"
  "pl_updated_at (upload_payload uid prof day k stamp) = stamp"
  by (cases k; simp add: upload_payload_def)+

lemma conflicts_apply_payload: "conflicts pl (apply_payload pl r)"
  by (simp add: conflicts_def apply_payload_def)

lemma conflicts_new_row: "conflicts pl (new_row nid dbn pl)"
  by (simp add: conflicts_def new_row_def)

lemma filter_patched:
  "filter (conflicts pl) (map (\<lambda>r. if conflicts pl r then apply_payload pl r else r) tbl)
     = map (apply_payload pl) (filter (conflicts pl) tbl)"
  by (induction tbl) (simp_all add: conflicts_apply_payload)

lemma filter_upsert_rows:
  "filter (conflicts pl) (upsert_rows nid dbn pl tbl) =
     (if list_ex (conflicts pl) tbl then map (apply_payload pl) (filter (conflicts pl) tbl)
      else [new_row nid dbn pl])"
  by (auto simp: upsert_rows_def filter_patched conflicts_new_row list_ex_iff filter_empty_conv)

lemma upload_ok_eval:
  assumes "uploadedFiles s src = Some fl" and "userId s = Some uid" and "uid \<noteq> []"
    and "profile s = Some prof" and "blob_outcome env = Ok" and "upsert_outcome env = Ok"
    and "filter (conflicts (upload_payload uid prof (today_of (clock_today env)) (ready_key src) (clock_stamp env)))
           (upsert_rows (store_id env) (store_now env)
              (upload_payload uid prof (today_of (clock_today env)) (ready_key src) (clock_stamp env))
              (daily_uploads b)) = [r]"
  shows "handleUploadSource src env (s, b) =
           (s\<lparr> loading := False, error := None, dailyUpload := Some r,
               uploadedFiles := (uploadedFiles s)(src := None) \<rparr>,
            b\<lparr> calls := calls b @
                   [StorageUpload (upload_path prof env src) fl,
                    UpsertDailyUpload (upload_payload uid prof (today_of (clock_today env)) (ready_key src)
                                         (clock_stamp env)) ON_CONFLICT],
                raw_uploads := put_object (upload_path prof env src) fl (raw_uploads b),
                daily_uploads := upsert_rows (store_id env) (store_now env)
                                   (upload_payload uid prof (today_of (clock_today env)) (ready_key src)
                                         (clock_stamp env)) (daily_uploads b) \<rparr>)"
proof -
  obtain sl where sl: "find_slot src = Some sl" "slot_key sl = ready_key src"
    using find_slot_key by blast
  show ?thesis
    using assms sl by (simp add: handleUploadSource_def Let_def upload_path_def)
qed

lemma get_ready_new_row:
  "get_ready k (new_row nid dbn pl) = patch_flag (payload_flag k pl) False"
  by (cases k) (simp_all add: new_row_def)

lemma first_upsert_row:
  assumes "length (filter (conflicts pl) tbl) \<le> 1"
    and "pl = upload_payload uid prof day k stamp"
  shows "\<exists>r. filter (conflicts pl) (upsert_rows nid dbn pl tbl) = [r] \<and> get_ready k r \<and>
             apply_payload (upload_payload uid prof day k stamp') r = r\<lparr>updated_at := stamp'\<rparr>"
proof (cases "filter (conflicts pl) tbl")
  case Nil
  then have "\<not> list_ex (conflicts pl) tbl"
    by (simp add: list_ex_iff filter_empty_conv)
  then have "filter (conflicts pl) (upsert_rows nid dbn pl tbl) = [new_row nid dbn pl]"
    by (simp add: filter_upsert_rows)
  moreover have "get_ready k (new_row nid dbn pl)"
    by (simp add: get_ready_new_row assms(2) payload_flag_upload patch_flag_def)
  moreover have "apply_payload (upload_payload uid prof day k stamp') (new_row nid dbn pl)
                   = (new_row nid dbn pl)\<lparr>updated_at := stamp'\<rparr>"
    unfolding assms(2)
    by (cases k) (simp_all add: apply_payload_def new_row_def upload_payload_def patch_flag_def)
  ultimately show ?thesis by simp
next
  case (Cons x xs)
  with assms(1) have xs: "xs = []" by simp
  have "x \<in> set (filter (conflicts pl) tbl)" using Cons by simp
  then have ex: "list_ex (conflicts pl) tbl" by (auto simp: list_ex_iff)
  then have "filter (conflicts pl) (upsert_rows nid dbn pl tbl) = [apply_payload pl x]"
    using Cons xs by (simp add: filter_upsert_rows)
  moreover have "get_ready k (apply_payload pl x)"
    by (simp add: get_ready_apply_payload assms(2) payload_flag_upload patch_flag_def)
  moreover have "apply_payload (upload_payload uid prof day k stamp') (apply_payload pl x)
                   = (apply_payload pl x)\<lparr>updated_at := stamp'\<rparr>"
    unfolding assms(2)
    by (cases k) (simp_all add: apply_payload_def upload_payload_def patch_flag_def)
  ultimately show ?thesis by simp
qed

lemma second_upsert_rows:
  assumes "filter (conflicts pl) tbl = [r]"
  shows "filter (conflicts pl) (upsert_rows nid dbn pl tbl) = [apply_payload pl r]"
    and "length (upsert_rows nid dbn pl tbl) = length tbl"
proof -
  have "r \<in> set (filter (conflicts pl) tbl)" using assms by simp
  then have ex: "list_ex (conflicts pl) tbl" by (auto simp: list_ex_iff)
  show "filter (conflicts pl) (upsert_rows nid dbn pl tbl) = [apply_payload pl r]"
    using ex assms by (simp add: filter_upsert_rows)
  show "length (upsert_rows nid dbn pl tbl) = length tbl"
    using ex by (simp add: upsert_rows_def)
qed

text \<open>
  Claim C5. With at most one row for (restaurant, today) in the table, as the natural key
  demands, two successful runs of \<^verbatim>\<open>handleUploadSource\<close> for the same source on the
  same day, a file being selected again before the second, leave exactly one row for
  (restaurant, today). After the first run that row has the source's flag true and is the
  record of the page; after the second run the row is the same but for its update
  time, the table has not grown, and the page holds that row.
\<close>

theorem upload_twice_one_record:
  assumes "uploadedFiles s src = Some fl" and "userId s = Some uid" and "uid \<noteq> []"
    and "profile s = Some prof"
    and "blob_outcome env = Ok" and "upsert_outcome env = Ok"
    and "blob_outcome env' = Ok" and "upsert_outcome env' = Ok"
    and "today_of (clock_today env') = today_of (clock_today env)"
    and "length (filter (same_key (profile_restaurant_name prof) (today_of (clock_today env)))
                   (daily_uploads b)) \<le> 1"
  shows "\<exists>r. filter (same_key (profile_restaurant_name prof) (today_of (clock_today env)))
               (daily_uploads (snd (handleUploadSource src env (s, b)))) = [r] \<and>
             get_ready (ready_key src) r \<and>
             dailyUpload (fst (handleUploadSource src env (s, b))) = Some r \<and>
             filter (same_key (profile_restaurant_name prof) (today_of (clock_today env)))
               (daily_uploads (snd (upload_again src fl' env' (handleUploadSource src env (s, b)))))
               = [r\<lparr>updated_at := clock_stamp env'\<rparr>] \<and>
             dailyUpload (fst (upload_again src fl' env' (handleUploadSource src env (s, b))))
               = Some (r\<lparr>updated_at := clock_stamp env'\<rparr>) \<and>
             length (daily_uploads (snd (upload_again src fl' env' (handleUploadSource src env (s, b)))))
               = length (daily_uploads (snd (handleUploadSource src env (s, b))))"
proof -
  let ?day = "today_of (clock_today env)"
  let ?pl = "upload_payload uid prof ?day (ready_key src) (clock_stamp env)"
  let ?pl' = "upload_payload uid prof ?day (ready_key src) (clock_stamp env')"
  let ?key = "same_key (profile_restaurant_name prof) ?day"
  let ?tbl = "upsert_rows (store_id env) (store_now env) ?pl (daily_uploads b)"
  let ?tbl' = "upsert_rows (store_id env') (store_now env') ?pl' ?tbl"
  have k: "conflicts ?pl = ?key" "conflicts ?pl' = ?key"
    by (simp_all add: conflicts_same_key upload_payload_key)
  from assms(10) have "length (filter (conflicts ?pl) (daily_uploads b)) \<le> 1"
    by (simp add: k)
  from first_upsert_row [OF this refl, of "store_id env" "store_now env" "clock_stamp env'"]
  obtain r where r: "filter (conflicts ?pl) ?tbl = [r]" "get_ready (ready_key src) r"
    "apply_payload ?pl' r = r\<lparr>updated_at := clock_stamp env'\<rparr>"
    by blast
  have once: "handleUploadSource src env (s, b) =
           (s\<lparr> loading := False, error := None, dailyUpload := Some r,
               uploadedFiles := (uploadedFiles s)(src := None) \<rparr>,
            b\<lparr> calls := calls b @
                   [StorageUpload (upload_path prof env src) fl, UpsertDailyUpload ?pl ON_CONFLICT],
                raw_uploads := put_object (upload_path prof env src) fl (raw_uploads b),
                daily_uploads := ?tbl \<rparr>)"
    using assms(1-6) r(1) by (rule upload_ok_eval)
  have r': "filter (conflicts ?pl') ?tbl = [r]" using r(1) by (simp add: k)
  note second = second_upsert_rows [OF r', of "store_id env'" "store_now env'"]
  let ?pl2 = "upload_payload uid prof (today_of (clock_today env')) (ready_key src) (clock_stamp env')"
  have pl2: "?pl2 = ?pl'" by (simp add: assms(9))
  have twice: "upload_again src fl' env' (handleUploadSource src env (s, b)) =
           ((handleFileSelect src (Some fl') (fst (handleUploadSource src env (s, b))))
              \<lparr> loading := False, error := None, dailyUpload := Some (apply_payload ?pl' r),
                uploadedFiles := (uploadedFiles (handleFileSelect src (Some fl')
                                    (fst (handleUploadSource src env (s, b)))))(src := None) \<rparr>,
            (snd (handleUploadSource src env (s, b)))
              \<lparr> calls := calls (snd (handleUploadSource src env (s, b))) @
                   [StorageUpload (upload_path prof env' src) fl', UpsertDailyUpload ?pl2 ON_CONFLICT],
                raw_uploads := put_object (upload_path prof env' src) fl'
                                 (raw_uploads (snd (handleUploadSource src env (s, b)))),
                daily_uploads := upsert_rows (store_id env') (store_now env') ?pl2
                                   (daily_uploads (snd (handleUploadSource src env (s, b)))) \<rparr>)"
    unfolding upload_again_def
  proof (rule upload_ok_eval)
    show "uploadedFiles (handleFileSelect src (Some fl') (fst (handleUploadSource src env (s, b)))) src
            = Some fl'"
      by (simp add: handleFileSelect_def)
    show "userId (handleFileSelect src (Some fl') (fst (handleUploadSource src env (s, b)))) = Some uid"
      using assms(2) by (simp add: once handleFileSelect_def)
    show "uid \<noteq> []" by (rule assms(3))
    show "profile (handleFileSelect src (Some fl') (fst (handleUploadSource src env (s, b)))) = Some prof"
      using assms(4) by (simp add: once handleFileSelect_def)
    show "blob_outcome env' = Ok" by (rule assms(7))
    show "upsert_outcome env' = Ok" by (rule assms(8))
    show "filter (conflicts ?pl2)
            (upsert_rows (store_id env') (store_now env') ?pl2
               (daily_uploads (snd (handleUploadSource src env (s, b))))) = [apply_payload ?pl' r]"
      using second(1) by (simp add: once pl2)
  qed
  have f1: "filter ?key ?tbl = [r]" using r(1) by (simp only: k)
  have f2: "filter ?key ?tbl' = [r\<lparr>updated_at := clock_stamp env'\<rparr>]"
    using second(1) r(3) by (simp only: k)
  have d1: "daily_uploads (snd (handleUploadSource src env (s, b))) = ?tbl"
    by (simp add: once)
  have d2: "daily_uploads (snd (upload_again src fl' env' (handleUploadSource src env (s, b)))) = ?tbl'"
    by (simp add: twice pl2 d1)
  have l1: "dailyUpload (fst (handleUploadSource src env (s, b))) = Some r"
    by (simp add: once)
  have l2: "dailyUpload (fst (upload_again src fl' env' (handleUploadSource src env (s, b))))
              = Some (r\<lparr>updated_at := clock_stamp env'\<rparr>)"
    by (simp add: twice r(3))
  show ?thesis
    by (intro exI [of _ r] conjI) (simp_all only: d1 d2 f1 f2 l1 l2 second(2) r(2))
qed

text \<open>DoorDash uploaded twice on 2024-05-01 into an empty table: one row.\<close>

theorem upload_twice_one_record_witness:
  "uploadedFiles ex_home DoorDash = Some ex_file \<and> userId ex_home = Some ''u1'' \<and> ''u1'' \<noteq> [] \<and>
   profile ex_home = Some ex_profile \<and>
   blob_outcome ex_env = Ok \<and> upsert_outcome ex_env = Ok \<and>
   blob_outcome ex_env_later = Ok \<and> upsert_outcome ex_env_later = Ok \<and>
   today_of (clock_today ex_env_later) = today_of (clock_today ex_env) \<and>
   length (filter (same_key (profile_restaurant_name ex_profile) (today_of (clock_today ex_env)))
             (daily_uploads ex_backend)) \<le> 1 \<and>
   (\<exists>r. filter (same_key ''Joes'' ''2024-05-01'')
           (daily_uploads (snd (handleUploadSource DoorDash ex_env (ex_home, ex_backend)))) = [r] \<and>
        get_ready K_doordash_ready r \<and>
        filter (same_key ''Joes'' ''2024-05-01'')
           (daily_uploads (snd (upload_again DoorDash ex_file ex_env_later
              (handleUploadSource DoorDash ex_env (ex_home, ex_backend)))))
          = [r\<lparr>updated_at := ''2024-05-01T22:31''\<rparr>]) \<and>
   length (daily_uploads (snd (upload_again DoorDash ex_file ex_env_later
              (handleUploadSource DoorDash ex_env (ex_home, ex_backend))))) = 1"
proof -
  have h: "uploadedFiles ex_home DoorDash = Some ex_file" "userId ex_home = Some ''u1''" "''u1'' \<noteq> []"
    "profile ex_home = Some ex_profile"
    "blob_outcome ex_env = Ok" "upsert_outcome ex_env = Ok"
    "blob_outcome ex_env_later = Ok" "upsert_outcome ex_env_later = Ok"
    "today_of (clock_today ex_env_later) = today_of (clock_today ex_env)"
    "length (filter (same_key (profile_restaurant_name ex_profile) (today_of (clock_today ex_env)))
             (daily_uploads ex_backend)) \<le> 1"
    by (simp_all add: ex_defs ex_env_later_def today_of_def)
  have v: "today_of (clock_today ex_env) = ''2024-05-01''" "profile_restaurant_name ex_profile = ''Joes''"
    "clock_stamp ex_env_later = ''2024-05-01T22:31''" "ready_key DoorDash = K_doordash_ready"
    by (simp_all add: ex_defs ex_env_later_def today_of_def)
  have one: "length (daily_uploads (snd (handleUploadSource DoorDash ex_env (ex_home, ex_backend)))) = 1"
    by (simp add: upload_defs ex_defs)
  from upload_twice_one_record [OF h, of ex_file] h one
  show ?thesis unfolding v by auto
qed

section \<open>Ready flags and status over time\<close>

lemma rows_rel_nth:
  "rows_rel R tbl tbl' \<longleftrightarrow>
     length tbl \<le> length tbl' \<and> (\<forall>i < length tbl. R (tbl ! i) (tbl' ! i))"
  by (auto simp: rows_rel_def list_all2_conv_all_nth)

lemma update_status_nth:
  "i < length tbl \<Longrightarrow>
   update_status rid st tbl ! i =
     (if du_id (tbl ! i) = rid then (tbl ! i)\<lparr>processing_status := st\<rparr> else tbl ! i)"
  by (simp add: update_status_def)

lemma update_status_length: "length (update_status rid st tbl) = length tbl"
  by (simp add: update_status_def)

lemma flags_kept_refl: "flags_kept r r"
  by (simp add: flags_kept_def)

lemma flags_kept_status: "flags_kept r (r\<lparr>processing_status := st\<rparr>)"
  by (simp add: flags_kept_def)

lemma flags_kept_apply_payload:
  "flags_kept r (apply_payload (upload_payload uid prof day k stamp) r)"
  by (cases k) (simp_all add: flags_kept_def apply_payload_def upload_payload_def patch_flag_def)

lemma status_apply_payload: "processing_status (apply_payload pl r) = processing_status r"
  by (simp add: apply_payload_def)

lemma upsert_keeps:
  "rows_rel (\<lambda>r r'. flags_kept r r' \<and> processing_status r' = processing_status r) tbl
     (upsert_rows nid dbn (upload_payload uid prof day k stamp) tbl)"
  by (simp add: rows_rel_nth upsert_rows_length upsert_rows_nth flags_kept_refl
        flags_kept_apply_payload status_apply_payload)

lemma rows_kept_refl:
  "rows_rel (\<lambda>r r'. flags_kept r r' \<and> processing_status r' = processing_status r) tbl tbl"
  by (simp add: rows_rel_nth flags_kept_refl)

lemma upload_keeps:
  "rows_rel (\<lambda>r r'. flags_kept r r' \<and> processing_status r' = processing_status r)
     (daily_uploads b) (daily_uploads (snd (handleUploadSource src env (s, b))))"
  by (cases "find_slot src"; cases "blob_outcome env"; cases "upsert_outcome env")
     (auto simp: handleUploadSource_def Let_def rows_kept_refl upsert_keeps split: option.splits)

lemma timer_table:
  "daily_uploads (snd (completion_timer oc (s, b))) = daily_uploads b \<or>
   (\<exists>rid. daily_uploads (snd (completion_timer oc (s, b))) = update_status rid Completed (daily_uploads b))"
  by (cases oc) (auto simp: completion_timer_def Let_def split: list.splits)

lemma advances_refl: "advances r r"
  by (simp add: advances_def flags_kept_refl)

lemma advances_completed: "advances r (r\<lparr>processing_status := Completed\<rparr>)"
  by (cases "processing_status r") (simp_all add: advances_def flags_kept_def)

lemma timer_advances:
  "rows_rel advances (daily_uploads b) (daily_uploads (snd (completion_timer oc (s, b))))"
  using timer_table [of oc s b]
  by (auto simp: rows_rel_nth update_status_nth update_status_length advances_refl advances_completed)

lemma timer_local:
  "rel_option advances (dailyUpload s) (dailyUpload (fst (completion_timer oc (s, b))))"
  by (cases oc; cases "dailyUpload s")
     (auto simp: completion_timer_def Let_def advances_refl advances_completed option.rel_map
           split: list.splits)

lemma start_table:
  "daily_uploads (snd (handleStartProcessing oc (s, b))) = daily_uploads b \<or>
   (\<exists>du. dailyUpload s = Some du \<and>
      daily_uploads (snd (handleStartProcessing oc (s, b))) =
        update_status (du_id du) InProcessing (daily_uploads b))"
  by (cases oc) (auto simp: handleStartProcessing_def Let_def split: option.splits)

lemma start_flags:
  "rows_rel flags_kept (daily_uploads b) (daily_uploads (snd (handleStartProcessing oc (s, b))))"
  using start_table [of oc s b]
  by (auto simp: rows_rel_nth update_status_nth update_status_length flags_kept_refl flags_kept_status)

lemma start_local_cases:
  "dailyUpload (fst (handleStartProcessing oc (s, b))) = dailyUpload s \<or>
   dailyUpload (fst (handleStartProcessing oc (s, b)))
     = map_option (\<lambda>prev. prev\<lparr>processing_status := InProcessing\<rparr>) (dailyUpload s)"
  by (cases oc) (auto simp: handleStartProcessing_def Let_def split: option.splits)

lemma start_local_flags:
  "rel_option flags_kept (dailyUpload s) (dailyUpload (fst (handleStartProcessing oc (s, b))))"
  using start_local_cases [of oc s b]
  by (cases "dailyUpload s") (auto simp: flags_kept_refl flags_kept_status)

lemma advances_in_processing:
  "processing_status r \<noteq> Completed \<Longrightarrow> advances r (r\<lparr>processing_status := InProcessing\<rparr>)"
  by (cases "processing_status r") (simp_all add: advances_def flags_kept_def)

lemma start_advances:
  assumes "\<forall>du. dailyUpload s = Some du \<longrightarrow>
             processing_status du \<noteq> Completed \<and>
             (\<forall>r \<in> set (daily_uploads b). du_id r = du_id du \<longrightarrow> processing_status r \<noteq> Completed)"
  shows "rows_rel advances (daily_uploads b) (daily_uploads (snd (handleStartProcessing oc (s, b))))"
    and "rel_option advances (dailyUpload s) (dailyUpload (fst (handleStartProcessing oc (s, b))))"
proof -
  show "rows_rel advances (daily_uploads b) (daily_uploads (snd (handleStartProcessing oc (s, b))))"
    using start_table [of oc s b] assms
    by (auto simp: rows_rel_nth update_status_nth update_status_length advances_refl
          advances_in_processing)
  show "rel_option advances (dailyUpload s) (dailyUpload (fst (handleStartProcessing oc (s, b))))"
    using start_local_cases [of oc s b] assms
    by (cases "dailyUpload s") (auto simp: advances_refl advances_in_processing)
qed

text \<open>
  Claim C2, as amended. For every row of the persisted table: \<^verbatim>\<open>handleUploadSource\<close>
  keeps its id, resets no ready flag and leaves its status alone; the completion timer
  resets no ready flag and moves no status backward, in the table and in the page's
  record; \<^verbatim>\<open>handleStartProcessing\<close> resets no ready flag, in the table and in the
  page's record, and moves no status backward when neither the page's record nor the
  rows with its id are completed.
\<close>

theorem records_never_regress:
  "rows_rel (\<lambda>r r'. flags_kept r r' \<and> processing_status r' = processing_status r)
     (daily_uploads b) (daily_uploads (snd (handleUploadSource src env (s, b)))) \<and>
   rows_rel advances (daily_uploads b) (daily_uploads (snd (completion_timer oc (s, b)))) \<and>
   rel_option advances (dailyUpload s) (dailyUpload (fst (completion_timer oc (s, b)))) \<and>
   rows_rel flags_kept (daily_uploads b) (daily_uploads (snd (handleStartProcessing oc (s, b)))) \<and>
   rel_option flags_kept (dailyUpload s) (dailyUpload (fst (handleStartProcessing oc (s, b)))) \<and>
   ((\<forall>du. dailyUpload s = Some du \<longrightarrow>
        processing_status du \<noteq> Completed \<and>
        (\<forall>r \<in> set (daily_uploads b). du_id r = du_id du \<longrightarrow> processing_status r \<noteq> Completed)) \<longrightarrow>
      rows_rel advances (daily_uploads b) (daily_uploads (snd (handleStartProcessing oc (s, b)))) \<and>
      rel_option advances (dailyUpload s) (dailyUpload (fst (handleStartProcessing oc (s, b)))))"
  by (intro conjI impI)
     (rule upload_keeps timer_advances timer_local start_flags start_local_flags
      | erule start_advances)+

text \<open>Start processing on a pending record with Grubhub ready.\<close>

theorem records_never_regress_witness:
  "dailyUpload (ex_home\<lparr>dailyUpload := Some ex_row\<rparr>) = Some ex_row \<and>
   processing_status ex_row \<noteq> Completed \<and>
   map processing_status (daily_uploads ex_backend_row) = [Pending] \<and>
   rows_rel advances (daily_uploads ex_backend_row)
     (daily_uploads (snd (handleStartProcessing Ok (ex_home\<lparr>dailyUpload := Some ex_row\<rparr>, ex_backend_row)))) \<and>
   map processing_status
     (daily_uploads (snd (handleStartProcessing Ok (ex_home\<lparr>dailyUpload := Some ex_row\<rparr>, ex_backend_row))))
     = [InProcessing] \<and>
   map grubhub_ready
     (daily_uploads (snd (handleStartProcessing Ok (ex_home\<lparr>dailyUpload := Some ex_row\<rparr>, ex_backend_row))))
     = [True]"
proof -
  have pre: "\<forall>du. dailyUpload (ex_home\<lparr>dailyUpload := Some ex_row\<rparr>) = Some du \<longrightarrow>
        processing_status du \<noteq> Completed \<and>
        (\<forall>r \<in> set (daily_uploads ex_backend_row). du_id r = du_id du \<longrightarrow> processing_status r \<noteq> Completed)"
    by (simp add: ex_backend_row_def ex_backend_def ex_row_def)
  have run: "daily_uploads (snd (handleStartProcessing Ok (ex_home\<lparr>dailyUpload := Some ex_row\<rparr>, ex_backend_row)))
               = [ex_row\<lparr>processing_status := InProcessing\<rparr>]"
    by (simp add: handleStartProcessing_def Let_def update_status_def ex_defs ex_backend_row_def ex_row_def)
  from records_never_regress [of ex_backend_row DoorDash ex_env "ex_home\<lparr>dailyUpload := Some ex_row\<rparr>" Ok] pre
  have "rows_rel advances (daily_uploads ex_backend_row)
     (daily_uploads (snd (handleStartProcessing Ok (ex_home\<lparr>dailyUpload := Some ex_row\<rparr>, ex_backend_row))))"
    by blast
  then show ?thesis
    by (simp add: run) (simp add: ex_backend_row_def ex_backend_def ex_row_def)
qed

lemma other_login_eval:
  "other_login = ex_logged_out\<lparr> userId := Some ''u2'', profile := Some ex_profile_other,
       restaurantName := ''Joes'', stage := StUpload \<rparr>"
  by (simp add: other_login_def handleAuth_def loadProfile_def loadProfile_steps_def
        loadTodayUpload_steps_def select_today_def today_of_def final_def Let_def
        ex_completed_backend_def ex_logged_out_def initial_Home_def ex_profile_def
        ex_profile_other_def ex_row_def)

lemma other_upload_eval:
  "other_upload =
     (other_login\<lparr> dailyUpload := Some (ex_row\<lparr> processing_status := Completed, user_id := ''u2'',
                        doordash_ready := True, updated_at := ''2024-05-01T21:01'' \<rparr>) \<rparr>,
      ex_completed_backend
        \<lparr> daily_uploads := [ex_row\<lparr> processing_status := Completed, user_id := ''u2'',
                        doordash_ready := True, updated_at := ''2024-05-01T21:01'' \<rparr>],
          raw_uploads := [(''Joes/2024-05-01/DoorDash.csv'', ex_file)],
          calls := [StorageUpload ''Joes/2024-05-01/DoorDash.csv'' ex_file,
                    UpsertDailyUpload (upload_payload ''u2'' ex_profile_other ''2024-05-01''
                                         K_doordash_ready ''2024-05-01T21:01'') ON_CONFLICT] \<rparr>)"
  by (simp add: other_upload_def other_login_eval handleFileSelect_def upload_defs
        ex_completed_backend_def ex_logged_out_def initial_Home_def ex_profile_other_def
        ex_env_def ex_row_def ex_file_def fun_upd_def fun_eq_iff)

text \<open>
  Claim C2 as stated fails. The row of (Joes, 2024-05-01) is completed, and
  \<^verbatim>\<open>handleStartProcessing\<close>, which reads no status, writes processing over it
  when it runs with that record. The page can get there: a second identity with the same
  restaurant name logs in, the read filters on the identity too and finds nothing, and
  the stage is upload. Uploading DoorDash upserts onto the completed row, the page merges
  it and stays on the upload stage with the start button enabled, and the click writes
  processing over completed.
\<close>

theorem start_after_completed:
  "map processing_status (daily_uploads ex_completed_backend) = [Completed] \<and>
   map processing_status
     (daily_uploads (snd (handleStartProcessing Ok
        (ex_home\<lparr>dailyUpload := Some (ex_row\<lparr>processing_status := Completed\<rparr>)\<rparr>,
         ex_completed_backend)))) = [InProcessing] \<and>
   map du_id (daily_uploads ex_completed_backend) = [''r0''] \<and>
   stage (fst other_upload) = StUpload \<and>
   start_button_enabled (fst other_upload) \<and>
   map processing_status (daily_uploads (snd other_upload)) = [Completed] \<and>
   map processing_status (daily_uploads (snd other_start)) = [InProcessing] \<and>
   map du_id (daily_uploads (snd other_start)) = [''r0'']"
  by (simp add: other_start_def click_start_processing_def start_button_enabled_def
        start_button_rendered_def render_def readySourcesCount_def other_upload_eval
        other_login_eval handleStartProcessing_def Let_def update_status_def
        ex_completed_backend_def ex_logged_out_def ex_home_def initial_Home_def ex_row_def)

section \<open>The completion timer after logout\<close>

lemma first_start_eval:
  "first_start =
     (ex_home\<lparr> dailyUpload := Some (ex_row\<lparr>processing_status := InProcessing\<rparr>),
              stage := StProcessing, pending_timers := [''r0''] \<rparr>,
      timer_backend\<lparr> daily_uploads := [ex_row\<lparr>processing_status := InProcessing\<rparr>],
                     calls := [UpdateStatus ''r0'' InProcessing] \<rparr>)"
  by (simp add: first_start_def click_start_processing_def start_button_enabled_def
        start_button_rendered_def render_def readySourcesCount_def handleStartProcessing_def
        Let_def update_status_def timer_backend_def ex_home_def initial_Home_def ex_row_def)

lemma first_logout_eval:
  "first_logout = ex_logged_out\<lparr>pending_timers := [''r0'']\<rparr>"
  by (simp add: first_logout_def first_start_eval handleLogout_def ex_home_def ex_logged_out_def
        initial_Home_def)

lemma second_login_bob:
  "second_login ''u3'' =
     ex_logged_out\<lparr> pending_timers := [''r0''], userId := Some ''u3'', profile := Some ex_profile_bob,
                    restaurantName := ''Bobs'', stage := StUpload \<rparr>"
  by (simp add: second_login_def first_logout_eval first_start_eval handleAuth_def loadProfile_def
        loadProfile_steps_def loadTodayUpload_steps_def select_today_def today_of_def final_def
        Let_def timer_backend_def ex_logged_out_def initial_Home_def ex_profile_def
        ex_profile_other_def ex_profile_bob_def ex_row_def)

lemma second_login_other:
  "second_login ''u2'' =
     ex_logged_out\<lparr> pending_timers := [''r0''], userId := Some ''u2'', profile := Some ex_profile_other,
                    restaurantName := ''Joes'', stage := StUpload \<rparr>"
  by (simp add: second_login_def first_logout_eval first_start_eval handleAuth_def loadProfile_def
        loadProfile_steps_def loadTodayUpload_steps_def select_today_def today_of_def final_def
        Let_def timer_backend_def ex_logged_out_def initial_Home_def ex_profile_def
        ex_profile_other_def ex_profile_bob_def ex_row_def)

lemma second_upload_bob:
  "dailyUpload (fst (second_upload ''u3'')) =
     Some \<lparr> du_id = ''r1'', user_id = ''u3'', restaurant_name = ''Bobs'', upload_date = ''2024-05-01'',
            ubereats_ready = False, doordash_ready = True, grubhub_ready = False,
            offline_ready = False, processing_status = Pending,
            created_at = ''2024-05-01T21:01'', updated_at = ''2024-05-01T21:01'' \<rparr> \<and>
   pending_timers (fst (second_upload ''u3'')) = [''r0''] \<and>
   userId (fst (second_upload ''u3'')) = Some ''u3'' \<and>
   map (\<lambda>r. (du_id r, user_id r, processing_status r)) (daily_uploads (snd (second_upload ''u3'')))
     = [(''r0'', ''u1'', InProcessing), (''r1'', ''u3'', Pending)]"
  by (simp add: second_upload_def second_login_bob handleFileSelect_def upload_defs
        first_start_eval timer_backend_def ex_logged_out_def initial_Home_def ex_profile_bob_def
        ex_env_def ex_row_def ex_file_def)

lemma second_upload_other:
  "dailyUpload (fst (second_upload ''u2'')) =
     Some (ex_row\<lparr> processing_status := InProcessing, user_id := ''u2'', doordash_ready := True,
                   updated_at := ''2024-05-01T21:01'' \<rparr>) \<and>
   pending_timers (fst (second_upload ''u2'')) = [''r0''] \<and>
   userId (fst (second_upload ''u2'')) = Some ''u2'' \<and>
   map (\<lambda>r. (du_id r, user_id r, processing_status r)) (daily_uploads (snd (second_upload ''u2'')))
     = [(''r0'', ''u2'', InProcessing)]"
  by (simp add: second_upload_def second_login_other handleFileSelect_def upload_defs
        first_start_eval timer_backend_def ex_logged_out_def initial_Home_def ex_profile_other_def
        ex_env_def ex_row_def ex_file_def)

text \<open>
  Claim C3 fails on the code. Logout leaves the pending timer in place. With the next
  identity (restaurant Bobs) logged in and its first upload merged, the timer of the
  previous session fires: the page's record, row r1 of the new session, turns completed
  while the persisted r1 is still pending. With a next identity that shares the
  restaurant name, the row r0 is the new session's record, and the same timer writes
  completed onto it in the table.
\<close>

theorem stale_timer_completes_new_session:
  "pending_timers (fst first_start) = [''r0''] \<and>
   userId first_logout = None \<and> dailyUpload first_logout = None \<and>
   pending_timers first_logout = [''r0''] \<and>
   userId (fst (second_upload ''u3'')) = Some ''u3'' \<and>
   map_option du_id (dailyUpload (fst (second_upload ''u3''))) = Some ''r1'' \<and>
   map_option processing_status (dailyUpload (fst (second_upload ''u3''))) = Some Pending \<and>
   map_option du_id (dailyUpload (fst (stale_timer ''u3''))) = Some ''r1'' \<and>
   map_option processing_status (dailyUpload (fst (stale_timer ''u3''))) = Some Completed \<and>
   map (\<lambda>r. (du_id r, user_id r, processing_status r)) (daily_uploads (snd (stale_timer ''u3'')))
     = [(''r0'', ''u1'', Completed), (''r1'', ''u3'', Pending)] \<and>
   map (\<lambda>r. (du_id r, user_id r, processing_status r)) (daily_uploads (snd (second_upload ''u2'')))
     = [(''r0'', ''u2'', InProcessing)] \<and>
   map (\<lambda>r. (du_id r, user_id r, processing_status r)) (daily_uploads (snd (stale_timer ''u2'')))
     = [(''r0'', ''u2'', Completed)] \<and>
   map_option processing_status (dailyUpload (fst (stale_timer ''u2''))) = Some Completed"
proof -
  have a: "pending_timers (fst first_start) = [''r0'']"
    by (simp add: first_start_eval)
  have b: "userId first_logout = None \<and> dailyUpload first_logout = None \<and>
           pending_timers first_logout = [''r0'']"
    by (simp add: first_logout_eval ex_logged_out_def initial_Home_def)
  have c: "map_option du_id (dailyUpload (fst (stale_timer ''u3''))) = Some ''r1'' \<and>
           map_option processing_status (dailyUpload (fst (stale_timer ''u3''))) = Some Completed \<and>
           map (\<lambda>r. (du_id r, user_id r, processing_status r)) (daily_uploads (snd (stale_timer ''u3'')))
             = [(''r0'', ''u1'', Completed), (''r1'', ''u3'', Pending)]"
    using second_upload_bob
    by (cases "second_upload ''u3''")
       (auto simp: stale_timer_def completion_timer_def Let_def update_status_def)
  have d: "map (\<lambda>r. (du_id r, user_id r, processing_status r)) (daily_uploads (snd (stale_timer ''u2'')))
             = [(''r0'', ''u2'', Completed)] \<and>
           map_option processing_status (dailyUpload (fst (stale_timer ''u2''))) = Some Completed"
    using second_upload_other
    by (cases "second_upload ''u2''")
       (auto simp: stale_timer_def completion_timer_def Let_def update_status_def)
  from a b c d second_upload_bob second_upload_other show ?thesis by simp
qed

end
